theory Spec2Isabelle
  imports Main "HOL-Library.Char_ord" "HOL-Library.List_Lexorder" "HOL-Library.Multiset"
    "HOL-Library.Sublist"
begin

section \<open>Python text operations used by scanner.py\<close>

text \<open>
  A Python \<open>str\<close> is modelled as a \<open>string\<close>; the code points covered are those below 256.
  \<open>isspace\<close> is the set of code points that \<open>str.strip()\<close> removes in that range:
  tab to carriage return, the four separators 28 to 31, the blank, NEL (133) and the
  no-break space (160).
\<close>

definition isspace :: "char \<Rightarrow> bool" where
  "isspace c = (let n = (of_char c :: nat) in
     (9 \<le> n \<and> n \<le> 13) \<or> (28 \<le> n \<and> n \<le> 32) \<or> n = 133 \<or> n = 160)"

definition lstrip :: "string \<Rightarrow> string" where
  "lstrip s = dropWhile isspace s"

definition rstrip :: "string \<Rightarrow> string" where
  "rstrip s = rev (dropWhile isspace (rev s))"

definition strip :: "string \<Rightarrow> string" where
  "strip s = rstrip (lstrip s)"

text \<open>\<open>s.split('\n')\<close>: the pieces between line feeds; the empty text gives one empty piece.\<close>

fun split_nl :: "string \<Rightarrow> string list" where
  "split_nl [] = [[]]"
| "split_nl (c # cs) =
     (if c = CHR 0x0A then [] # split_nl cs
      else (case split_nl cs of [] \<Rightarrow> [[c]] | l # ls \<Rightarrow> (c # l) # ls))"

text \<open>\<open>str.lower()\<close> on the code points below 256: ASCII capitals and the Latin-1 capitals
  192 to 222 (the multiplication sign 215 apart) move up by 32.\<close>

definition lower_char :: "char \<Rightarrow> char" where
  "lower_char c = (let n = (of_char c :: nat) in
     if (65 \<le> n \<and> n \<le> 90) \<or> (192 \<le> n \<and> n \<le> 222 \<and> n \<noteq> 215) then char_of (n + 32) else c)"

definition lower :: "string \<Rightarrow> string" where
  "lower s = map lower_char s"

text \<open>Decimal rendering: \<open>str(n)\<close> of an \<open>int\<close>, and the format \<open>{n:,}\<close> that groups the
  digits in threes.\<close>

definition digit_char :: "nat \<Rightarrow> char" where
  "digit_char d = char_of (48 + d)"

fun str_nat :: "nat \<Rightarrow> string" where
  "str_nat n = (if n < 10 then [digit_char n] else str_nat (n div 10) @ [digit_char (n mod 10)])"

definition str_int :: "int \<Rightarrow> string" where
  "str_int i = (if i < 0 then CHR ''-'' # str_nat (nat (- i)) else str_nat (nat i))"

definition three_digits :: "nat \<Rightarrow> string" where
  "three_digits n = [digit_char (n div 100 mod 10), digit_char (n div 10 mod 10), digit_char (n mod 10)]"

fun format_commas :: "nat \<Rightarrow> string" where
  "format_commas n =
     (if n < 1000 then str_nat n else format_commas (n div 1000) @ '','' @ three_digits (n mod 1000))"

text \<open>\<open>" ".join(arguments)\<close>.\<close>

fun join_spaces :: "string list \<Rightarrow> string" where
  "join_spaces [] = []"
| "join_spaces [a] = a"
| "join_spaces (a # b # rest) = a @ '' '' @ join_spaces (b # rest)"

section \<open>Exceptions, console and launched commands\<close>

text \<open>
  An exception is its class and its text \<open>str(e)\<close>. \<open>is_OSError\<close> is what
  \<open>except (FileNotFoundError, OSError)\<close> catches, \<open>is_Exception\<close> what
  \<open>except Exception\<close> catches: KeyboardInterrupt, SystemExit and asyncio's CancelledError
  derive from BaseException only.
\<close>

datatype exn_class =
    FileNotFoundError | PermissionError | FileExistsError | OSError
  | UnicodeDecodeError | ValueError | NotImplementedError | SubprocessError
  | KeyboardInterrupt | SystemExit | CancelledError

datatype exn = Exn (exn_class: exn_class) (exn_text: string)

fun is_OSError :: "exn_class \<Rightarrow> bool" where
  "is_OSError FileNotFoundError = True"
| "is_OSError PermissionError = True"
| "is_OSError FileExistsError = True"
| "is_OSError OSError = True"
| "is_OSError _ = False"

fun is_Exception :: "exn_class \<Rightarrow> bool" where
  "is_Exception KeyboardInterrupt = False"
| "is_Exception SystemExit = False"
| "is_Exception CancelledError = False"
| "is_Exception _ = True"

text \<open>
  What a call does besides returning: the lines it prints and the commands it hands to
  \<open>asyncio.create_subprocess_exec\<close>, in order. A computation is the list of these events
  together with either the exception it raised or the value it returned.
\<close>

datatype event = Print string | Launch "string list"

type_synonym 'a io = "event list \<times> (exn + 'a)"

definition io_return :: "'a \<Rightarrow> 'a io" where
  "io_return x = ([], Inr x)"

definition io_raise :: "exn \<Rightarrow> 'a io" where
  "io_raise e = ([], Inl e)"

definition io_print :: "string \<Rightarrow> unit io" where
  "io_print s = ([Print s], Inr ())"

definition io_bind :: "'a io \<Rightarrow> ('a \<Rightarrow> 'b io) \<Rightarrow> 'b io" where
  "io_bind m f =
     (case m of
        (t, Inl e) \<Rightarrow> (t, Inl e)
      | (t, Inr x) \<Rightarrow> (case f x of (t', r) \<Rightarrow> (t @ t', r)))"

definition io_then :: "unit io \<Rightarrow> 'b io \<Rightarrow> 'b io" where
  "io_then m n = io_bind m (\<lambda>_. n)"

text \<open>\<open>try: m except ...: h e\<close>; the handler re-raises what its clause does not catch.\<close>

definition io_try :: "'a io \<Rightarrow> (exn \<Rightarrow> 'a io) \<Rightarrow> 'a io" where
  "io_try m h =
     (case m of
        (t, Inl e) \<Rightarrow> (case h e of (t', r) \<Rightarrow> (t @ t', r))
      | (t, Inr x) \<Rightarrow> (t, Inr x))"

definition printed :: "'a io \<Rightarrow> string list" where
  "printed m = concat (map (\<lambda>ev. case ev of Print s \<Rightarrow> [s] | Launch _ \<Rightarrow> []) (fst m))"

definition launched :: "'a io \<Rightarrow> string list list" where
  "launched m = concat (map (\<lambda>ev. case ev of Print _ \<Rightarrow> [] | Launch c \<Rightarrow> [c]) (fst m))"

definition outcome :: "'a io \<Rightarrow> exn + 'a" where
  "outcome m = snd m"

section \<open>The environment of one run\<close>

text \<open>
  A path is kept as the expression that builds it, \<open>Path(a) / b\<close>; how pathlib renders it
  (separator, normalisation) is the platform's, given by \<open>path_str\<close> below.
\<close>

datatype path = Path string | Div path string

fun path_operands :: "path \<Rightarrow> string list" where
  "path_operands (Path a) = [a]"
| "path_operands (Div p b) = path_operands p @ [b]"

fun last_operand :: "path \<Rightarrow> string" where
  "last_operand (Path a) = a"
| "last_operand (Div p b) = b"

text \<open>
  A path that \<open>glob\<close> yields: its components, and what \<open>stat()\<close> gives for it, which is
  its size in bytes or the text of the OSError raised (the file is gone, or it is a link
  whose target is missing). \<open>name\<close> is the last component. A folder answers a glob pattern
  with the paths that match it, or with an exception; globbing what is missing or is not
  a folder yields nothing.
\<close>

record scanned_file =
  parts :: "string list"
  stat_size :: "string + nat"

definition name :: "scanned_file \<Rightarrow> string" where
  "name file_path = (if parts file_path = [] then [] else last (parts file_path))"

definition Path_stat :: "scanned_file \<Rightarrow> nat io" where
  "Path_stat file_path =
     (case stat_size file_path of
        Inl message \<Rightarrow> io_raise (Exn OSError message)
      | Inr st_size \<Rightarrow> io_return st_size)"

datatype node = RegularFile | Directory "string \<Rightarrow> exn + scanned_file list"

type_synonym filesystem = "string \<Rightarrow> node option"

definition Path_exists :: "filesystem \<Rightarrow> string \<Rightarrow> bool" where
  "Path_exists fs p = (fs p \<noteq> None)"

definition Path_glob :: "filesystem \<Rightarrow> string \<Rightarrow> string \<Rightarrow> exn + scanned_file list" where
  "Path_glob fs p pattern =
     (case fs p of Some (Directory g) \<Rightarrow> g pattern | _ \<Rightarrow> Inr [])"

text \<open>
  A child process once launched: what \<open>communicate()\<close> returns on its standard output,
  the lines its two pipes deliver to \<open>readline()\<close> in the order the event loop hands them
  over (an empty line is the end of that stream), and its exit code.
\<close>

datatype stream = Stdout | Stderr

record child =
  stdout_data :: string
  transcript :: "(stream \<times> string) list"
  returncode :: int

text \<open>
  The answers of the environment during one run: folder creation, the folder test right
  after it, process launch, UTF-8 decoding, pathlib's rendering, and the file system as it
  is once the scan process has terminated.
\<close>

record world =
  mkdir_error :: "string \<Rightarrow> exn option"
  exists_after_mkdir :: "string \<Rightarrow> bool"
  create_subprocess_exec :: "string list \<Rightarrow> exn + child"
  decode :: "string \<Rightarrow> exn + string"
  path_str :: "path \<Rightarrow> string"
  absolute :: "string \<Rightarrow> string"
  normcase :: "string \<Rightarrow> string"
  files_after :: filesystem

definition Path_mkdir :: "world \<Rightarrow> string \<Rightarrow> unit io" where
  "Path_mkdir w p = (case mkdir_error w p of None \<Rightarrow> io_return () | Some e \<Rightarrow> io_raise e)"

definition subprocess_exec :: "world \<Rightarrow> string list \<Rightarrow> child io" where
  "subprocess_exec w cmd = ([Launch cmd], create_subprocess_exec w cmd)"

definition bytes_decode :: "world \<Rightarrow> string \<Rightarrow> string io" where
  "bytes_decode w b = ([], decode w b)"

section \<open>scanner.py\<close>

subsection \<open>is_naps2_available\<close>

definition is_naps2_available :: "world \<Rightarrow> bool io" where
  "is_naps2_available w =
     io_try
       (io_bind (subprocess_exec w [''NAPS2.Console'', ''--version'']) (\<lambda>process.
          let exit_code = returncode process in
          io_return (exit_code = 0)))
       (\<lambda>e. if is_OSError (exn_class e) then io_return False else io_raise e)"

subsection \<open>get_scanner_device\<close>

definition get_scanner_device :: "world \<Rightarrow> string \<Rightarrow> string option io" where
  "get_scanner_device w driver =
     io_try
       (io_bind (subprocess_exec w [''NAPS2.Console'', ''--driver'', driver, ''--listdevices''])
          (\<lambda>process.
             let stdout = stdout_data process; exit_code = returncode process in
             if exit_code = 0 \<and> stdout \<noteq> [] then
               io_bind (bytes_decode w stdout) (\<lambda>text.
                 let output = strip text in
                 if output \<noteq> [] then io_return (Some (strip (hd (split_nl output))))
                 else io_return None)
             else io_return None))
       (\<lambda>e. if is_Exception (exn_class e)
             then io_then (io_print (''Error finding scanner: '' @ exn_text e)) (io_return None)
             else io_raise e)"

subsection \<open>check_for_scanned_files\<close>

definition glob_files :: "world \<Rightarrow> string \<Rightarrow> string \<Rightarrow> scanned_file list io" where
  "glob_files w folder search_pattern = ([], Path_glob (files_after w) folder search_pattern)"

definition check_for_scanned_files :: "world \<Rightarrow> string \<Rightarrow> string \<Rightarrow> string \<Rightarrow> bool io" where
  "check_for_scanned_files w output_folder file_prefix file_format =
     io_try
       (if \<not> Path_exists (files_after w) output_folder then io_return False
        else
          let search_pattern = file_prefix @ ''*.'' @ file_format in
          io_bind (glob_files w output_folder search_pattern) (\<lambda>files.
            io_return (length files > 0)))
       (\<lambda>e. if is_Exception (exn_class e) then io_return False else io_raise e)"

subsection \<open>show_scan_results\<close>

fun io_for_each :: "'a list \<Rightarrow> ('a \<Rightarrow> unit io) \<Rightarrow> unit io" where
  "io_for_each [] body = io_return ()"
| "io_for_each (x # xs) body = io_then (body x) (io_for_each xs body)"

text \<open>
  \<open>sorted(files)\<close> orders Path objects: by their components, one after the other, each
  compared after the platform's case normalisation (none on POSIX, lower case on Windows).
\<close>

definition path_key :: "world \<Rightarrow> scanned_file \<Rightarrow> string list" where
  "path_key w file_path = map (normcase w) (parts file_path)"

definition sorted_files :: "world \<Rightarrow> scanned_file list \<Rightarrow> scanned_file list" where
  "sorted_files w files = sort_key (path_key w) files"

text \<open>The body of the loop, lines 332 and 333, and the line it prints.\<close>

definition file_line :: "string \<Rightarrow> nat \<Rightarrow> string" where
  "file_line file_name st_size =
     (let size_kb = st_size div 1024 in
      ''  '' @ file_name @ '' ('' @ format_commas size_kb @ '' KB)'')"

definition print_file :: "scanned_file \<Rightarrow> unit io" where
  "print_file file_path =
     io_bind (Path_stat file_path) (\<lambda>st_size.
       io_print (file_line (name file_path) st_size))"

definition files_created_line :: "nat \<Rightarrow> string" where
  "files_created_line n_files = CHR 0x0A # ''Files created ('' @ str_nat n_files @ ''):''"

definition show_scan_results :: "world \<Rightarrow> string \<Rightarrow> string \<Rightarrow> string \<Rightarrow> unit io" where
  "show_scan_results w output_folder file_prefix file_format =
     io_try
       (let search_pattern = file_prefix @ ''*.'' @ file_format in
        io_bind (glob_files w output_folder search_pattern) (\<lambda>files.
        io_then (io_print (files_created_line (length files))) (
        io_then (io_for_each (sorted_files w files) print_file) (
        if files \<noteq> [] then
          io_print (CHR 0x0A # ''All files saved to: '' @ absolute w output_folder)
        else io_return ()))))
       (\<lambda>e. if is_Exception (exn_class e)
             then io_print (''Error showing results: '' @ exn_text e)
             else io_raise e)"

subsection \<open>scan_with_naps2\<close>

text \<open>Lines 172 to 176: the output path handed to the tool.\<close>

definition build_output_path :: "string \<Rightarrow> string \<Rightarrow> string \<Rightarrow> path" where
  "build_output_path output_folder file_prefix file_format =
     (if lower file_format = ''pdf'' then Div (Path output_folder) (file_prefix @ ''.'' @ file_format)
      else Div (Path output_folder) (file_prefix @ ''_$(nnnn).'' @ file_format))"

text \<open>Lines 179 to 188: the command line of the scan.\<close>

definition naps2_arguments ::
  "world \<Rightarrow> string \<Rightarrow> string \<Rightarrow> string \<Rightarrow> int \<Rightarrow> string \<Rightarrow> path \<Rightarrow> string list" where
  "naps2_arguments w driver device_name source dpi color_mode output_path =
     [''NAPS2.Console'',
      ''--driver'', driver,
      ''--device'', device_name,
      ''--source'', source,
      ''--dpi'', str_int dpi,
      ''--bitdepth'', color_mode,
      ''--output'', path_str w output_path,
      ''--verbose'']"

text \<open>
  Lines 206 to 217: the two \<open>read_output\<close> loops under \<open>asyncio.gather\<close>, run over the
  lines in the order the event loop delivers them. A reader that gets an empty line has
  reached the end of its stream and reads no more. \<open>readline\<close> raises ValueError for a line
  longer than the stream's limit of 64 KiB, and a line that does not decode raises
  UnicodeDecodeError; either leaves \<open>gather\<close>.
\<close>

definition readline_limit :: nat where
  "readline_limit = 65536"

fun stream_prefix :: "stream \<Rightarrow> string" where
  "stream_prefix Stdout = ''NAPS2''"
| "stream_prefix Stderr = ''ERROR''"

function gather_read_output :: "world \<Rightarrow> (stream \<times> string) list \<Rightarrow> unit io" where
  "gather_read_output w [] = io_return ()"
| "gather_read_output w ((src, line) # rest) =
     (if line = [] then gather_read_output w (filter (\<lambda>entry. fst entry \<noteq> src) rest)
      else if length line > readline_limit then
        io_raise (Exn ValueError ''Separator is found, but chunk is longer than limit'')
      else
        io_bind (bytes_decode w line) (\<lambda>text.
        io_then (io_print (stream_prefix src @ '': '' @ strip text)) (
        gather_read_output w rest)))"
  by pat_completeness auto
termination
  by (relation "measure (\<lambda>(w, t). length t)") (auto simp: less_Suc_eq_le)

text \<open>Lines 170 to 233: the run once the device name is known.\<close>

definition run_scan ::
  "world \<Rightarrow> string \<Rightarrow> string \<Rightarrow> string \<Rightarrow> int \<Rightarrow> string \<Rightarrow> string \<Rightarrow> string \<Rightarrow> string \<Rightarrow> bool io" where
  "run_scan w output_folder file_prefix file_format dpi color_mode source device_name driver =
     io_then (io_print (''Scanner: '' @ device_name)) (
     let output_path = build_output_path output_folder file_prefix file_format;
         arguments = naps2_arguments w driver device_name source dpi color_mode output_path in
     io_then (io_print []) (
     io_then (io_print ''NAPS2 Command:'') (
     io_then (io_print (join_spaces arguments)) (
     io_then (io_print []) (
     io_then (io_print ''Starting scan...'') (
     io_then (io_print ''MAKE SURE PAPER IS IN THE ADF TRAY!'') (
     io_then (io_print []) (
     io_bind (subprocess_exec w arguments) (\<lambda>process.
     io_then (gather_read_output w (transcript process)) (
     let exit_code = returncode process in
     io_then (io_print []) (
     io_then (io_print (''NAPS2 finished with exit code: '' @ str_int exit_code)) (
     io_bind (check_for_scanned_files w output_folder file_prefix file_format) (\<lambda>has_files.
     if has_files \<or> exit_code = 0 then
       io_then (show_scan_results w output_folder file_prefix file_format) (io_return True)
     else
       io_then (io_print ''No files were created.'') (io_return False))))))))))))))"

text \<open>Lines 151 to 168, the body of the \<open>try\<close> up to the device, then \<open>run_scan\<close>.\<close>

definition scan_body ::
  "world \<Rightarrow> string \<Rightarrow> string \<Rightarrow> string \<Rightarrow> int \<Rightarrow> string \<Rightarrow> string \<Rightarrow> string option \<Rightarrow> string \<Rightarrow> bool io" where
  "scan_body w output_folder file_prefix file_format dpi color_mode source device_name driver =
     io_then (Path_mkdir w output_folder) (
     io_then (if \<not> exists_after_mkdir w output_folder
              then io_print (''Created folder: '' @ output_folder) else io_return ()) (
     io_bind (is_naps2_available w) (\<lambda>available.
     if \<not> available then
       io_then (io_print ''ERROR: NAPS2.Console not found in system PATH.'') (
       io_then (io_print ''Install NAPS2 from: https://www.naps2.com/download'') (
       io_then (io_print ''Or add NAPS2 installation folder to PATH environment variable.'') (
       io_return False)))
     else
       (case device_name of
          None \<Rightarrow>
            io_bind (get_scanner_device w driver) (\<lambda>found.
              if found = None \<or> found = Some [] then
                io_then (io_print ''ERROR: No scanner found.'') (io_return False)
              else
                run_scan w output_folder file_prefix file_format dpi color_mode source
                  (the found) driver)
        | Some given \<Rightarrow>
            run_scan w output_folder file_prefix file_format dpi color_mode source
              given driver))))"

definition scan_with_naps2 ::
  "world \<Rightarrow> string \<Rightarrow> string \<Rightarrow> string \<Rightarrow> int \<Rightarrow> string \<Rightarrow> string \<Rightarrow> string option \<Rightarrow> string \<Rightarrow> bool io" where
  "scan_with_naps2 w output_folder file_prefix file_format dpi color_mode source device_name driver =
     io_try
       (scan_body w output_folder file_prefix file_format dpi color_mode source device_name driver)
       (\<lambda>e. if is_Exception (exn_class e)
             then io_then (io_print (''Error during scan: '' @ exn_text e)) (io_return False)
             else io_raise e)"

subsection \<open>create_argument_parser\<close>

text \<open>
  The parser is the list of its \<open>add_argument\<close> calls. \<open>parse_args\<close> is argparse's: the
  model takes the options of a command line as the pairs of option string and value text
  that argparse makes of it (how it splits the words, abbreviations and \<open>--dpi=600\<close>
  included, is argparse's own), and leaves out \<open>-h\<close>, which prints the help and exits.
  Each value goes through the argument's \<open>type\<close> and is then looked up in its \<open>choices\<close>;
  a failure of either, or an unknown option, ends the program with status 2.
\<close>

datatype arg_value = StrVal string | IntVal int | NoneVal

datatype arg_type = TypeStr | TypeInt

record argument =
  option_strings :: "string list"
  dest :: string
  arg_type :: arg_type
  default_value :: arg_value
  choices :: "string list option"

definition create_argument_parser :: "argument list" where
  "create_argument_parser =
     [\<lparr>option_strings = [''-o'', ''--output''], dest = ''output'', arg_type = TypeStr,
        default_value = StrVal ''scanned_pages'', choices = None\<rparr>,
      \<lparr>option_strings = [''-p'', ''--prefix''], dest = ''prefix'', arg_type = TypeStr,
        default_value = StrVal ''page'', choices = None\<rparr>,
      \<lparr>option_strings = [''-f'', ''--format''], dest = ''format'', arg_type = TypeStr,
        default_value = StrVal ''png'',
        choices = Some [''png'', ''jpg'', ''jpeg'', ''tiff'', ''bmp'', ''pdf'']\<rparr>,
      \<lparr>option_strings = [''-d'', ''--dpi''], dest = ''dpi'', arg_type = TypeInt,
        default_value = IntVal 300, choices = None\<rparr>,
      \<lparr>option_strings = [''-c'', ''--color''], dest = ''color'', arg_type = TypeStr,
        default_value = StrVal ''color'', choices = Some [''color'', ''gray'', ''bw'']\<rparr>,
      \<lparr>option_strings = [''-s'', ''--source''], dest = ''source'', arg_type = TypeStr,
        default_value = StrVal ''feeder'', choices = Some [''feeder'', ''glass'']\<rparr>,
      \<lparr>option_strings = [''--device''], dest = ''device'', arg_type = TypeStr,
        default_value = NoneVal, choices = None\<rparr>,
      \<lparr>option_strings = [''--driver''], dest = ''driver'', arg_type = TypeStr,
        default_value = StrVal ''wia'', choices = Some [''wia'', ''twain'']\<rparr>]"

text \<open>
  \<open>int(text)\<close>: white space around, an optional sign, then decimal digits in which single
  underscores may stand between two digits. \<open>None\<close> is ValueError.
\<close>

definition is_digit :: "char \<Rightarrow> bool" where
  "is_digit c = (let n = (of_char c :: nat) in 48 \<le> n \<and> n \<le> 57)"

definition digit_value :: "char \<Rightarrow> nat" where
  "digit_value c = of_char c - 48"

fun int_digits :: "string \<Rightarrow> string option" where
  "int_digits [] = None"
| "int_digits [c] = (if is_digit c then Some [c] else None)"
| "int_digits (c # d # rest) =
     (if \<not> is_digit c then None
      else if d = CHR ''_'' then map_option (Cons c) (int_digits rest)
      else map_option (Cons c) (int_digits (d # rest)))"

definition digits_to_nat :: "string \<Rightarrow> nat" where
  "digits_to_nat ds = foldl (\<lambda>acc c. acc * 10 + digit_value c) 0 ds"

definition python_int :: "string \<Rightarrow> int option" where
  "python_int text =
     (case strip text of
        [] \<Rightarrow> None
      | c # rest \<Rightarrow>
          if c = CHR ''-'' then map_option (\<lambda>ds. - int (digits_to_nat ds)) (int_digits rest)
          else if c = CHR ''+'' then map_option (\<lambda>ds. int (digits_to_nat ds)) (int_digits rest)
          else map_option (\<lambda>ds. int (digits_to_nat ds)) (int_digits (c # rest)))"

type_synonym namespace = "string \<Rightarrow> arg_value option"

definition get_value :: "argument \<Rightarrow> string \<Rightarrow> arg_value option" where
  "get_value action arg_string =
     (case arg_type action of
        TypeInt \<Rightarrow> map_option IntVal (python_int arg_string)
      | TypeStr \<Rightarrow> Some (StrVal arg_string))"

definition check_value :: "argument \<Rightarrow> string \<Rightarrow> arg_value \<Rightarrow> bool" where
  "check_value action arg_string v =
     (case choices action of
        None \<Rightarrow> True
      | Some cs \<Rightarrow> (case v of StrVal s \<Rightarrow> s \<in> set cs | _ \<Rightarrow> False))"

definition defaults :: "argument list \<Rightarrow> namespace" where
  "defaults parser = map_of (map (\<lambda>action. (dest action, default_value action)) parser)"

fun consume_options :: "argument list \<Rightarrow> (string \<times> string) list \<Rightarrow> namespace \<Rightarrow> nat + namespace" where
  "consume_options parser [] ns = Inr ns"
| "consume_options parser ((option_string, arg_string) # rest) ns =
     (case find (\<lambda>action. option_string \<in> set (option_strings action)) parser of
        None \<Rightarrow> Inl 2
      | Some action \<Rightarrow>
          (case get_value action arg_string of
             None \<Rightarrow> Inl 2
           | Some v \<Rightarrow>
               if check_value action arg_string v
               then consume_options parser rest (ns(dest action \<mapsto> v))
               else Inl 2))"

definition parse_args :: "argument list \<Rightarrow> (string \<times> string) list \<Rightarrow> nat + namespace" where
  "parse_args parser given = consume_options parser given (defaults parser)"

section \<open>The specification's words\<close>

text \<open>
  "The first non-empty line" of the device listing, as the specification puts it: the
  lines are the pieces between line feeds, a line counts as empty when nothing is left of
  it once the white space around it is dropped, and the device name is the first other
  line without that white space.
\<close>

definition spec_first_nonempty_line :: "string \<Rightarrow> string option" where
  "spec_first_nonempty_line text = find (\<lambda>l. l \<noteq> []) (map strip (split_nl text))"

text \<open>The page-number placeholder that the tool expands for every scanned page.\<close>

definition placeholder :: string where
  "placeholder = ''$(nnnn)''"

definition has_placeholder :: "path \<Rightarrow> bool" where
  "has_placeholder p = (\<exists>operand\<in>set (path_operands p). sublist placeholder operand)"

section \<open>Sample runs\<close>

text \<open>
  A run on a machine with the tool installed and one WIA scanner: the listing answers
  with two devices after a blank line, the scan prints on both pipes, leaves two pages in
  the output folder and still exits with status 1.
\<close>

definition version_command :: "string list" where
  "version_command = [''NAPS2.Console'', ''--version'']"

definition listdevices_command :: "string \<Rightarrow> string list" where
  "listdevices_command driver = [''NAPS2.Console'', ''--driver'', driver, ''--listdevices'']"

definition sample_listing :: string where
  "sample_listing = '' '' @ [CHR 0x0A] @ '' Dev A '' @ [CHR 0x0D, CHR 0x0A] @ ''Dev B'' @ [CHR 0x0A]"

definition sample_folder :: node where
  "sample_folder = Directory (\<lambda>pattern.
     if pattern = ''page*.png''
     then Inr [\<lparr>parts = [''scanned_pages'', ''page_0002.png''], stat_size = Inr 2048000\<rparr>,
               \<lparr>parts = [''scanned_pages'', ''page_0001.png''], stat_size = Inr 1500\<rparr>]
     else Inr [])"

definition sample_world :: world where
  "sample_world =
     \<lparr>mkdir_error = (\<lambda>p. None),
      exists_after_mkdir = (\<lambda>p. True),
      create_subprocess_exec = (\<lambda>cmd.
        if cmd = version_command then
          Inr \<lparr>stdout_data = ''NAPS2 7.4.0'', transcript = [], returncode = 0\<rparr>
        else if cmd = listdevices_command ''wia'' then
          Inr \<lparr>stdout_data = sample_listing, transcript = [], returncode = 0\<rparr>
        else
          Inr \<lparr>stdout_data = [],
               transcript = [(Stdout, ''Scanning page 1'' @ [CHR 0x0A]),
                             (Stderr, ''Feeder empty'' @ [CHR 0x0A]),
                             (Stderr, [])],
               returncode = 1\<rparr>),
      decode = Inr,
      path_str = (\<lambda>p. foldr (\<lambda>a b. if b = [] then a else a @ ''/'' @ b) (path_operands p) []),
      absolute = (\<lambda>p. ''/home/user/'' @ p),
      normcase = (\<lambda>s. s),
      files_after = (\<lambda>p. if p = ''scanned_pages'' then Some sample_folder else None)\<rparr>"

text \<open>The same machine with the scanner unplugged: the listing prints nothing.\<close>

definition no_scanner_world :: world where
  "no_scanner_world =
     sample_world\<lparr>create_subprocess_exec := (\<lambda>cmd.
        if cmd = version_command then
          Inr \<lparr>stdout_data = ''NAPS2 7.4.0'', transcript = [], returncode = 0\<rparr>
        else
          Inr \<lparr>stdout_data = [], transcript = [], returncode = 0\<rparr>)\<rparr>"

text \<open>A machine without the tool: every launch fails with FileNotFoundError.\<close>

definition no_tool_world :: world where
  "no_tool_world =
     sample_world\<lparr>create_subprocess_exec := (\<lambda>cmd.
        Inl (Exn FileNotFoundError ''[Errno 2] No such file or directory''))\<rparr>"

text \<open>A machine without the tool on which the output folder cannot be created either.\<close>

definition no_tool_readonly_world :: world where
  "no_tool_readonly_world =
     no_tool_world\<lparr>mkdir_error :=
        (\<lambda>p. Some (Exn PermissionError ''[Errno 13] Permission denied''))\<rparr>"

text \<open>
  An output folder in which the second of three matching entries is a link whose target
  is gone.
\<close>

definition dangling_folder :: node where
  "dangling_folder = Directory (\<lambda>pattern.
     if pattern = ''page*.png''
     then Inr [\<lparr>parts = [''scanned_pages'', ''page_b.png''],
                 stat_size = Inl ''[Errno 2] No such file or directory''\<rparr>,
               \<lparr>parts = [''scanned_pages'', ''page_c.png''], stat_size = Inr 4096\<rparr>,
               \<lparr>parts = [''scanned_pages'', ''page_a.png''], stat_size = Inr 2048\<rparr>]
     else Inr [])"

definition dangling_world :: world where
  "dangling_world =
     sample_world\<lparr>files_after :=
        (\<lambda>p. if p = ''scanned_pages'' then Some dangling_folder else None)\<rparr>"

text \<open>A run whose output folder cannot be created.\<close>

definition readonly_world :: world where
  "readonly_world =
     sample_world\<lparr>mkdir_error := (\<lambda>p. Some (Exn PermissionError ''[Errno 13] Permission denied''))\<rparr>"


section \<open>White space and lines\<close>

lemma isspace_nl: "isspace (CHR 0x0A)"
  by (simp add: isspace_def)

lemma split_nl_not_Nil: "split_nl s \<noteq> []"
  by (induction s) (auto split: list.splits)

lemma hd_split_nl: "hd (split_nl s) = takeWhile (\<lambda>c. c \<noteq> CHR 0x0A) s"
  by (induction s) (auto split: list.splits simp: split_nl_not_Nil)

lemma rstrip_decomp: "s = rstrip s @ rev (takeWhile isspace (rev s))"
  unfolding rstrip_def by (metis rev_append rev_rev_ident takeWhile_dropWhile_id)

lemma rstrip_Nil_iff: "rstrip s = [] \<longleftrightarrow> (\<forall>c\<in>set s. isspace c)"
  by (auto simp: rstrip_def dropWhile_eq_Nil_conv)

lemma lstrip_Nil_iff: "lstrip s = [] \<longleftrightarrow> (\<forall>c\<in>set s. isspace c)"
  by (auto simp: lstrip_def dropWhile_eq_Nil_conv)

lemma hd_rstrip: "rstrip s \<noteq> [] \<Longrightarrow> hd (rstrip s) = hd s"
  by (metis hd_append2 rstrip_decomp)

lemma last_rstrip: "rstrip s \<noteq> [] \<Longrightarrow> \<not> isspace (last (rstrip s))"
  unfolding rstrip_def by (metis (no_types) hd_dropWhile last_rev rev_is_Nil_conv)

lemma hd_lstrip: "lstrip s \<noteq> [] \<Longrightarrow> \<not> isspace (hd (lstrip s))"
  unfolding lstrip_def by (rule hd_dropWhile)

lemma strip_hd: "strip s \<noteq> [] \<Longrightarrow> \<not> isspace (hd (strip s))"
  unfolding strip_def by (metis hd_rstrip hd_lstrip rstrip_Nil_iff empty_iff list.set(1))

lemma strip_last: "strip s \<noteq> [] \<Longrightarrow> \<not> isspace (last (strip s))"
  unfolding strip_def by (rule last_rstrip)

lemma strip_Nil_iff: "strip s = [] \<longleftrightarrow> (\<forall>c\<in>set s. isspace c)"
proof -
  have "set (lstrip s) \<subseteq> set s" unfolding lstrip_def by (rule set_dropWhileD[THEN subsetI]) 
  show ?thesis
  proof
    assume "strip s = []"
    then have a: "\<forall>c\<in>set (lstrip s). isspace c" by (simp add: strip_def rstrip_Nil_iff)
    show "\<forall>c\<in>set s. isspace c"
    proof (cases "lstrip s = []")
      case True then show ?thesis by (simp add: lstrip_Nil_iff)
    next
      case False
      then have "\<not> isspace (hd (lstrip s))" by (rule hd_lstrip)
      with a False show ?thesis by (metis hd_in_set)
    qed
  next
    assume "\<forall>c\<in>set s. isspace c"
    then have "lstrip s = []" by (simp add: lstrip_Nil_iff)
    then show "strip s = []" by (simp add: strip_def rstrip_def)
  qed
qed

lemma first_line_of_stripped:
  assumes "strip t \<noteq> []"
  shows "strip (hd (split_nl (strip t))) \<noteq> []"
proof -
  let ?o = "strip t"
  have h: "\<not> isspace (hd ?o)" using assms by (rule strip_hd)
  then have "hd ?o \<noteq> CHR 0x0A" using isspace_nl by metis
  with assms have "hd ?o \<in> set (takeWhile (\<lambda>c. c \<noteq> CHR 0x0A) ?o)"
    by (cases ?o) auto
  with h show ?thesis by (auto simp: strip_Nil_iff hd_split_nl)
qed


lemma rstrip_append_spaces:
  assumes "\<forall>c\<in>set ws. isspace c"
  shows "rstrip (x @ ws) = rstrip x"
proof -
  have "dropWhile isspace (rev ws @ rev x) = dropWhile isspace (rev x)"
    by (rule dropWhile_append2) (use assms in auto)
  then show ?thesis by (simp add: rstrip_def)
qed

lemma strip_append_spaces:
  assumes "\<forall>c\<in>set ws. isspace c"
  shows "strip (x @ ws) = strip x"
proof (cases "\<forall>c\<in>set x. isspace c")
  case True
  with assms have "strip (x @ ws) = []" "strip x = []" by (auto simp: strip_Nil_iff)
  then show ?thesis by simp
next
  case False
  then have "lstrip (x @ ws) = lstrip x @ ws"
    by (auto simp: lstrip_def dropWhile_append1)
  with assms show ?thesis by (simp add: strip_def rstrip_append_spaces)
qed

lemma strip_Cons_space: "isspace c \<Longrightarrow> strip (c # l) = strip l"
  by (simp add: strip_def lstrip_def)

lemma first_line_lstrip:
  "dropWhile isspace s \<noteq> [] \<Longrightarrow>
   spec_first_nonempty_line s = Some (strip (takeWhile (\<lambda>c. c \<noteq> CHR 0x0A) (dropWhile isspace s)))"
proof (induction s)
  case Nil
  then show ?case by simp
next
  case (Cons c cs)
  show ?case
  proof (cases "isspace c")
    case True
    with Cons.prems have d: "dropWhile isspace cs \<noteq> []" by simp
    have "spec_first_nonempty_line (c # cs) = spec_first_nonempty_line cs"
    proof (cases "c = CHR 0x0A")
      case True
      then show ?thesis by (simp add: spec_first_nonempty_line_def strip_def lstrip_def rstrip_def)
    next
      case False
      obtain l ls where "split_nl cs = l # ls" by (cases "split_nl cs") (simp_all add: split_nl_not_Nil)
      with False True show ?thesis
        by (simp add: spec_first_nonempty_line_def strip_Cons_space)
    qed
    with True Cons.IH[OF d] show ?thesis by simp
  next
    case False
    then have nl: "c \<noteq> CHR 0x0A" using isspace_nl by metis
    have "split_nl (c # cs) \<noteq> []" by (rule split_nl_not_Nil)
    then obtain l ls where sp: "split_nl (c # cs) = l # ls" by (cases "split_nl (c # cs)") simp_all
    have l: "l = takeWhile (\<lambda>c. c \<noteq> CHR 0x0A) (c # cs)" using hd_split_nl[of "c # cs"] sp by simp
    with nl have "c \<in> set l" by simp
    with False have "strip l \<noteq> []" by (auto simp: strip_Nil_iff)
    with sp l False show ?thesis by (simp add: spec_first_nonempty_line_def)
  qed
qed

lemma takeWhile_rstrip:
  "strip (takeWhile (\<lambda>c. c \<noteq> CHR 0x0A) (rstrip u)) = strip (takeWhile (\<lambda>c. c \<noteq> CHR 0x0A) u)"
proof -
  let ?p = "\<lambda>c. c \<noteq> CHR 0x0A"
  let ?ws = "rev (takeWhile isspace (rev u))"
  have u: "u = rstrip u @ ?ws" by (rule rstrip_decomp)
  have ws: "\<forall>c\<in>set ?ws. isspace c" by (auto dest: set_takeWhileD)
  show ?thesis
  proof (cases "\<forall>c\<in>set (rstrip u). ?p c")
    case True
    then have a: "takeWhile ?p (rstrip u @ ?ws) = rstrip u @ takeWhile ?p ?ws"
      by (simp add: takeWhile_append2)
    have b: "\<forall>c\<in>set (takeWhile ?p ?ws). isspace c" using ws by (meson set_takeWhileD)
    have c: "takeWhile ?p (rstrip u) = rstrip u" using True by simp
    have "strip (takeWhile ?p (rstrip u @ ?ws)) = strip (rstrip u)"
      unfolding a using b by (rule strip_append_spaces)
    then have "strip (takeWhile ?p (rstrip u @ ?ws)) = strip (takeWhile ?p (rstrip u))"
      unfolding c .
    with u show ?thesis by simp
  next
    case False
    then have "takeWhile ?p (rstrip u @ ?ws) = takeWhile ?p (rstrip u)"
      by (auto simp: takeWhile_append1)
    with u show ?thesis by simp
  qed
qed

lemma first_line_is_spec:
  assumes "strip t \<noteq> []"
  shows "spec_first_nonempty_line t = Some (strip (hd (split_nl (strip t))))"
proof -
  have "lstrip t \<noteq> []" using assms by (auto simp: strip_def rstrip_def)
  then have d: "dropWhile isspace t \<noteq> []" by (simp add: lstrip_def)
  have "strip (hd (split_nl (strip t))) = strip (takeWhile (\<lambda>c. c \<noteq> CHR 0x0A) (lstrip t))"
    by (simp add: hd_split_nl strip_def[of t] takeWhile_rstrip)
  with first_line_lstrip[OF d] show ?thesis by (simp add: lstrip_def)
qed

lemma no_line_is_spec:
  assumes "strip t = []"
  shows "spec_first_nonempty_line t = None"
proof -
  have a: "\<forall>c\<in>set t. isspace c" using assms by (simp add: strip_Nil_iff)
  have "\<forall>l\<in>set (split_nl s). set l \<subseteq> set s" for s
  proof (induction s)
    case Nil then show ?case by simp
  next
    case (Cons c cs)
    then show ?case by (cases "split_nl cs") (auto simp: split_nl_not_Nil)
  qed
  with a have "\<forall>l\<in>set (split_nl t). strip l = []" by (auto simp: strip_Nil_iff)
  then show ?thesis by (auto simp: spec_first_nonempty_line_def find_None_iff)
qed

section \<open>Outcome, launches and prints of composed computations\<close>

lemma outcome_return: "outcome (io_return x) = Inr x"
  by (simp add: outcome_def io_return_def)

lemma outcome_raise: "outcome (io_raise e) = Inl e"
  by (simp add: outcome_def io_raise_def)

lemma outcome_print: "outcome (io_print s) = Inr ()"
  by (simp add: outcome_def io_print_def)

lemma outcome_bind:
  "outcome (io_bind m f) = (case outcome m of Inl e \<Rightarrow> Inl e | Inr x \<Rightarrow> outcome (f x))"
  by (cases m) (simp add: outcome_def io_bind_def split: sum.splits prod.splits)

lemma outcome_then:
  "outcome (io_then m n) = (case outcome m of Inl e \<Rightarrow> Inl e | Inr x \<Rightarrow> outcome n)"
  by (simp add: io_then_def outcome_bind)

lemma outcome_try:
  "outcome (io_try m h) = (case outcome m of Inl e \<Rightarrow> outcome (h e) | Inr x \<Rightarrow> Inr x)"
  by (cases m) (simp add: outcome_def io_try_def split: sum.splits prod.splits)

lemma launched_return: "launched (io_return x) = []"
  by (simp add: launched_def io_return_def)

lemma launched_raise: "launched (io_raise e) = []"
  by (simp add: launched_def io_raise_def)

lemma launched_print: "launched (io_print s) = []"
  by (simp add: launched_def io_print_def)

lemma launched_bind:
  "launched (io_bind m f) =
     launched m @ (case outcome m of Inl e \<Rightarrow> [] | Inr x \<Rightarrow> launched (f x))"
  by (cases m) (simp add: launched_def outcome_def io_bind_def split: sum.splits prod.splits)

lemma launched_then:
  "launched (io_then m n) = launched m @ (case outcome m of Inl e \<Rightarrow> [] | Inr x \<Rightarrow> launched n)"
  by (simp add: io_then_def launched_bind)

lemma launched_try:
  "launched (io_try m h) =
     launched m @ (case outcome m of Inl e \<Rightarrow> launched (h e) | Inr x \<Rightarrow> [])"
  by (cases m) (simp add: launched_def outcome_def io_try_def split: sum.splits prod.splits)

lemma printed_return: "printed (io_return x) = []"
  by (simp add: printed_def io_return_def)

lemma printed_raise: "printed (io_raise e) = []"
  by (simp add: printed_def io_raise_def)

lemma printed_print: "printed (io_print s) = [s]"
  by (simp add: printed_def io_print_def)

lemma printed_bind:
  "printed (io_bind m f) =
     printed m @ (case outcome m of Inl e \<Rightarrow> [] | Inr x \<Rightarrow> printed (f x))"
  by (cases m) (simp add: printed_def outcome_def io_bind_def split: sum.splits prod.splits)

lemma printed_then:
  "printed (io_then m n) = printed m @ (case outcome m of Inl e \<Rightarrow> [] | Inr x \<Rightarrow> printed n)"
  by (simp add: io_then_def printed_bind)

lemma printed_try:
  "printed (io_try m h) =
     printed m @ (case outcome m of Inl e \<Rightarrow> printed (h e) | Inr x \<Rightarrow> [])"
  by (cases m) (simp add: printed_def outcome_def io_try_def split: sum.splits prod.splits)

lemma outcome_subprocess_exec: "outcome (subprocess_exec w cmd) = create_subprocess_exec w cmd"
  by (simp add: outcome_def subprocess_exec_def)

lemma launched_subprocess_exec: "launched (subprocess_exec w cmd) = [cmd]"
  by (simp add: launched_def subprocess_exec_def)

lemma printed_subprocess_exec: "printed (subprocess_exec w cmd) = []"
  by (simp add: printed_def subprocess_exec_def)

lemma outcome_bytes_decode: "outcome (bytes_decode w b) = decode w b"
  by (simp add: outcome_def bytes_decode_def)

lemma launched_bytes_decode: "launched (bytes_decode w b) = []"
  by (simp add: launched_def bytes_decode_def)

lemma printed_bytes_decode: "printed (bytes_decode w b) = []"
  by (simp add: printed_def bytes_decode_def)

lemma outcome_glob_files:
  "outcome (glob_files w folder pattern) = Path_glob (files_after w) folder pattern"
  by (simp add: outcome_def glob_files_def)

lemma launched_glob_files: "launched (glob_files w folder pattern) = []"
  by (simp add: launched_def glob_files_def)

lemma printed_glob_files: "printed (glob_files w folder pattern) = []"
  by (simp add: printed_def glob_files_def)

lemma outcome_Path_mkdir:
  "outcome (Path_mkdir w p) = (case mkdir_error w p of None \<Rightarrow> Inr () | Some e \<Rightarrow> Inl e)"
  by (simp add: Path_mkdir_def outcome_return outcome_raise split: option.splits)

lemma launched_Path_mkdir: "launched (Path_mkdir w p) = []"
  by (simp add: Path_mkdir_def launched_return launched_raise split: option.splits)

lemma printed_Path_mkdir: "printed (Path_mkdir w p) = []"
  by (simp add: Path_mkdir_def printed_return printed_raise split: option.splits)

lemmas io_outcome =
  outcome_return outcome_raise outcome_print outcome_bind outcome_then outcome_try
  outcome_subprocess_exec outcome_bytes_decode outcome_glob_files outcome_Path_mkdir

lemmas io_launched =
  launched_return launched_raise launched_print launched_bind launched_then launched_try
  launched_subprocess_exec launched_bytes_decode launched_glob_files launched_Path_mkdir

lemmas io_printed =
  printed_return printed_raise printed_print printed_bind printed_then printed_try
  printed_subprocess_exec printed_bytes_decode printed_glob_files printed_Path_mkdir

section \<open>What each function of scanner.py launches and returns\<close>

lemma launched_is_naps2_available: "launched (is_naps2_available w) = [version_command]"
  by (simp add: is_naps2_available_def version_command_def io_launched io_outcome Let_def
      split: sum.splits)

lemma outcome_is_naps2_available:
  "outcome (is_naps2_available w) =
     (case create_subprocess_exec w version_command of
        Inr process \<Rightarrow> Inr (returncode process = 0)
      | Inl e \<Rightarrow> if is_OSError (exn_class e) then Inr False else Inl e)"
  by (simp add: is_naps2_available_def version_command_def io_outcome Let_def split: sum.splits)

lemma printed_is_naps2_available: "printed (is_naps2_available w) = []"
  by (simp add: is_naps2_available_def io_printed io_outcome Let_def split: sum.splits)

lemma launched_get_scanner_device:
  "launched (get_scanner_device w driver) = [listdevices_command driver]"
  by (simp add: get_scanner_device_def listdevices_command_def io_launched io_outcome Let_def
      split: sum.splits)

lemma outcome_get_scanner_device:
  "outcome (get_scanner_device w driver) =
     (case create_subprocess_exec w (listdevices_command driver) of
        Inl e \<Rightarrow> if is_Exception (exn_class e) then Inr None else Inl e
      | Inr process \<Rightarrow>
          if returncode process = 0 \<and> stdout_data process \<noteq> [] then
            (case decode w (stdout_data process) of
               Inl e \<Rightarrow> if is_Exception (exn_class e) then Inr None else Inl e
             | Inr decoded \<Rightarrow>
                 Inr (if strip decoded \<noteq> [] then Some (strip (hd (split_nl (strip decoded))))
                      else None))
          else Inr None)"
  by (simp add: get_scanner_device_def listdevices_command_def io_outcome Let_def
      split: sum.splits)

lemma get_scanner_device_SomeD:
  assumes "outcome (get_scanner_device w driver) = Inr (Some device)"
  shows "\<exists>process decoded.
           create_subprocess_exec w (listdevices_command driver) = Inr process
         \<and> returncode process = 0 \<and> stdout_data process \<noteq> []
         \<and> decode w (stdout_data process) = Inr decoded
         \<and> strip decoded \<noteq> [] \<and> device = strip (hd (split_nl (strip decoded)))"
  using assms unfolding outcome_get_scanner_device
  by (auto split: sum.splits if_splits)

lemma get_scanner_device_not_empty:
  "outcome (get_scanner_device w driver) \<noteq> Inr (Some [])"
proof
  assume "outcome (get_scanner_device w driver) = Inr (Some [])"
  from get_scanner_device_SomeD[OF this] obtain decoded
    where "strip decoded \<noteq> []" "[] = strip (hd (split_nl (strip decoded)))" by blast
  then show False using first_line_of_stripped by metis
qed

lemma launched_gather_read_output: "launched (gather_read_output w t) = []"
  by (induction w t rule: gather_read_output.induct)
     (simp_all add: io_launched split: sum.splits)

lemma gather_read_output_raises:
  "outcome (gather_read_output w t) = Inl e \<Longrightarrow>
   (\<exists>b. decode w b = Inl e) \<or> exn_class e = ValueError"
  by (induction w t rule: gather_read_output.induct)
     (auto simp: io_outcome split: sum.splits if_splits)

lemma launched_check_for_scanned_files:
  "launched (check_for_scanned_files w folder file_prefix file_format) = []"
  by (simp add: check_for_scanned_files_def io_launched Let_def split: sum.splits)

lemma printed_check_for_scanned_files:
  "printed (check_for_scanned_files w folder file_prefix file_format) = []"
  by (simp add: check_for_scanned_files_def io_printed Let_def split: sum.splits)

lemma outcome_check_for_scanned_files:
  "outcome (check_for_scanned_files w folder file_prefix file_format) =
     (case Path_glob (files_after w) folder (file_prefix @ ''*.'' @ file_format) of
        Inr files \<Rightarrow> Inr (files \<noteq> [])
      | Inl e \<Rightarrow> if is_Exception (exn_class e) then Inr False else Inl e)"
  by (auto simp: check_for_scanned_files_def io_outcome Let_def Path_exists_def Path_glob_def
      split: sum.splits option.splits node.splits)

lemma outcome_Path_stat:
  "outcome (Path_stat f) =
     (case stat_size f of Inl message \<Rightarrow> Inl (Exn OSError message) | Inr n \<Rightarrow> Inr n)"
  by (simp add: Path_stat_def io_outcome split: sum.splits)

lemma launched_Path_stat: "launched (Path_stat f) = []"
  by (simp add: Path_stat_def io_launched split: sum.splits)

lemma printed_Path_stat: "printed (Path_stat f) = []"
  by (simp add: Path_stat_def io_printed split: sum.splits)

lemma outcome_print_file:
  "outcome (print_file f) =
     (case stat_size f of Inl message \<Rightarrow> Inl (Exn OSError message) | Inr n \<Rightarrow> Inr ())"
  by (simp add: print_file_def io_outcome outcome_Path_stat split: sum.splits)

lemma launched_print_file: "launched (print_file f) = []"
  by (simp add: print_file_def io_launched launched_Path_stat outcome_Path_stat
      split: sum.splits)

lemma printed_print_file:
  "printed (print_file f) =
     (case stat_size f of Inl message \<Rightarrow> [] | Inr n \<Rightarrow> [file_line (name f) n])"
  by (simp add: print_file_def io_printed printed_Path_stat outcome_Path_stat
      split: sum.splits)

lemma launched_for_each_print_file: "launched (io_for_each xs print_file) = []"
  by (induction xs) (simp_all add: io_launched launched_print_file split: sum.splits)

lemma for_each_print_file_raises:
  "outcome (io_for_each xs print_file) = Inl e \<Longrightarrow> is_Exception (exn_class e)"
  by (induction xs) (auto simp: io_outcome outcome_print_file split: sum.splits)

lemma outcome_for_each_print_file:
  "\<forall>f\<in>set xs. \<exists>n. stat_size f = Inr n \<Longrightarrow> outcome (io_for_each xs print_file) = Inr ()"
  by (induction xs) (auto simp: io_outcome outcome_print_file)

lemma printed_for_each_print_file:
  "\<forall>f\<in>set xs. \<exists>n. stat_size f = Inr n \<Longrightarrow>
   printed (io_for_each xs print_file)
     = map (\<lambda>f. file_line (name f) (projr (stat_size f))) xs"
  by (induction xs) (auto simp: io_printed io_outcome outcome_print_file printed_print_file)

lemma launched_show_scan_results:
  "launched (show_scan_results w folder file_prefix file_format) = []"
  by (simp add: show_scan_results_def io_launched io_outcome Let_def
      launched_for_each_print_file split: sum.splits)

lemma outcome_show_scan_results:
  "outcome (show_scan_results w folder file_prefix file_format) =
     (case Path_glob (files_after w) folder (file_prefix @ ''*.'' @ file_format) of
        Inr files \<Rightarrow> Inr ()
      | Inl e \<Rightarrow> if is_Exception (exn_class e) then Inr () else Inl e)"
  using for_each_print_file_raises
  by (auto simp: show_scan_results_def io_outcome Let_def split: sum.splits)

lemma set_sorted_files: "set (sorted_files w files) = set files"
  by (simp add: sorted_files_def)

lemma printed_show_scan_results:
  assumes "Path_glob (files_after w) folder (file_prefix @ ''*.'' @ file_format) = Inr files"
    and "\<forall>f\<in>set files. \<exists>n. stat_size f = Inr n"
  shows "printed (show_scan_results w folder file_prefix file_format) =
          files_created_line (length files)
          # map (\<lambda>f. file_line (name f) (projr (stat_size f))) (sorted_files w files)
          @ (if files \<noteq> [] then [CHR 0x0A # ''All files saved to: '' @ absolute w folder]
             else [])"
proof -
  have ok: "\<forall>f\<in>set (sorted_files w files). \<exists>n. stat_size f = Inr n"
    using assms(2) by (simp add: set_sorted_files)
  show ?thesis
    using assms(1) outcome_for_each_print_file[OF ok] printed_for_each_print_file[OF ok]
    by (simp add: show_scan_results_def io_printed io_outcome Let_def)
qed

lemma printed_show_scan_results_header:
  assumes "Path_glob (files_after w) folder (file_prefix @ ''*.'' @ file_format) = Inr files"
  shows "\<exists>rest. printed (show_scan_results w folder file_prefix file_format)
                  = files_created_line (length files) # rest"
  using assms
  by (simp add: show_scan_results_def io_printed io_outcome Let_def split: sum.splits)

lemma printed_show_scan_results_error:
  assumes "Path_glob (files_after w) folder (file_prefix @ ''*.'' @ file_format) = Inl e"
  shows "printed (show_scan_results w folder file_prefix file_format)
           = (if is_Exception (exn_class e) then [''Error showing results: '' @ exn_text e]
              else [])"
  using assms
  by (simp add: show_scan_results_def io_printed io_outcome Let_def)

lemma outcome_run_scan:
  "outcome (run_scan w folder file_prefix file_format dpi color_mode source device driver) =
     (case create_subprocess_exec w
             (naps2_arguments w driver device source dpi color_mode
                (build_output_path folder file_prefix file_format)) of
        Inl e \<Rightarrow> Inl e
      | Inr process \<Rightarrow>
          (case outcome (gather_read_output w (transcript process)) of
             Inl e \<Rightarrow> Inl e
           | Inr u \<Rightarrow>
               (case outcome (check_for_scanned_files w folder file_prefix file_format) of
                  Inl e \<Rightarrow> Inl e
                | Inr has_files \<Rightarrow>
                    if has_files \<or> returncode process = 0 then
                      (case outcome (show_scan_results w folder file_prefix file_format) of
                         Inl e \<Rightarrow> Inl e
                       | Inr u \<Rightarrow> Inr True)
                    else Inr False)))"
  by (simp add: run_scan_def io_outcome Let_def split: sum.splits)

lemma launched_run_scan:
  "launched (run_scan w folder file_prefix file_format dpi color_mode source device driver) =
     [naps2_arguments w driver device source dpi color_mode
        (build_output_path folder file_prefix file_format)]"
  by (simp add: run_scan_def io_launched io_outcome Let_def launched_gather_read_output
      launched_check_for_scanned_files launched_show_scan_results split: sum.splits)

lemma outcome_scan_with_naps2:
  "outcome (scan_with_naps2 w folder file_prefix file_format dpi color_mode source device_name driver) =
     (case outcome (scan_body w folder file_prefix file_format dpi color_mode source device_name driver) of
        Inl e \<Rightarrow> if is_Exception (exn_class e) then Inr False else Inl e
      | Inr reported \<Rightarrow> Inr reported)"
  by (simp add: scan_with_naps2_def io_outcome split: sum.splits)

lemma launched_scan_with_naps2:
  "launched (scan_with_naps2 w folder file_prefix file_format dpi color_mode source device_name driver) =
     launched (scan_body w folder file_prefix file_format dpi color_mode source device_name driver)"
  by (simp add: scan_with_naps2_def io_launched split: sum.splits)

lemma outcome_scan_body:
  "outcome (scan_body w folder file_prefix file_format dpi color_mode source device_name driver) =
     (case mkdir_error w folder of
        Some e \<Rightarrow> Inl e
      | None \<Rightarrow>
          (case outcome (is_naps2_available w) of
             Inl e \<Rightarrow> Inl e
           | Inr available \<Rightarrow>
               if \<not> available then Inr False
               else
                 (case device_name of
                    Some given \<Rightarrow>
                      outcome (run_scan w folder file_prefix file_format dpi color_mode source given driver)
                  | None \<Rightarrow>
                      (case outcome (get_scanner_device w driver) of
                         Inl e \<Rightarrow> Inl e
                       | Inr None \<Rightarrow> Inr False
                       | Inr (Some found) \<Rightarrow>
                           outcome (run_scan w folder file_prefix file_format dpi color_mode source
                                      found driver)))))"
  by (auto simp: scan_body_def io_outcome get_scanner_device_not_empty
      split: sum.splits option.splits)

lemma launched_scan_body:
  "launched (scan_body w folder file_prefix file_format dpi color_mode source device_name driver) =
     (case mkdir_error w folder of
        Some e \<Rightarrow> []
      | None \<Rightarrow>
          version_command #
          (case outcome (is_naps2_available w) of
             Inl e \<Rightarrow> []
           | Inr available \<Rightarrow>
               if \<not> available then []
               else
                 (case device_name of
                    Some given \<Rightarrow>
                      [naps2_arguments w driver given source dpi color_mode
                         (build_output_path folder file_prefix file_format)]
                  | None \<Rightarrow>
                      listdevices_command driver #
                      (case outcome (get_scanner_device w driver) of
                         Inl e \<Rightarrow> []
                       | Inr None \<Rightarrow> []
                       | Inr (Some found) \<Rightarrow>
                           [naps2_arguments w driver found source dpi color_mode
                              (build_output_path folder file_prefix file_format)]))))"
  by (auto simp: scan_body_def io_launched io_outcome launched_is_naps2_available
      launched_get_scanner_device launched_run_scan get_scanner_device_not_empty
      split: sum.splits option.splits)

lemma printed_scan_with_naps2:
  "printed (scan_with_naps2 w folder file_prefix file_format dpi color_mode source device_name
              driver) =
     printed (scan_body w folder file_prefix file_format dpi color_mode source device_name driver)
     @ (case outcome (scan_body w folder file_prefix file_format dpi color_mode source
                        device_name driver) of
          Inl e \<Rightarrow> if is_Exception (exn_class e) then [''Error during scan: '' @ exn_text e] else []
        | Inr reported \<Rightarrow> [])"
  by (simp add: scan_with_naps2_def io_printed io_outcome split: sum.splits)

lemma printed_scan_body_no_folder:
  "mkdir_error w folder = Some e \<Longrightarrow>
   printed (scan_body w folder file_prefix file_format dpi color_mode source device_name driver)
     = []"
  by (simp add: scan_body_def io_printed io_outcome)

lemma printed_scan_body_unavailable:
  "mkdir_error w folder = None \<Longrightarrow> outcome (is_naps2_available w) = Inr False \<Longrightarrow>
   printed (scan_body w folder file_prefix file_format dpi color_mode source device_name driver)
     = (if \<not> exists_after_mkdir w folder then [''Created folder: '' @ folder] else [])
       @ [''ERROR: NAPS2.Console not found in system PATH.'',
          ''Install NAPS2 from: https://www.naps2.com/download'',
          ''Or add NAPS2 installation folder to PATH environment variable.'']"
  by (simp add: scan_body_def io_printed io_outcome printed_is_naps2_available)


section \<open>Device resolution returns a clean name\<close>

text \<open>
  C9. Whenever \<open>get_scanner_device\<close> returns a device name rather than \<open>None\<close>, the name
  is not empty and neither begins nor ends with white space.
\<close>

theorem device_name_stripped:
  assumes "outcome (get_scanner_device w driver) = Inr (Some device)"
  shows "device \<noteq> [] \<and> \<not> isspace (hd device) \<and> \<not> isspace (last device)"
proof -
  from assms obtain decoded where t: "strip decoded \<noteq> []"
    and d: "device = strip (hd (split_nl (strip decoded)))"
    by (auto simp: get_scanner_device_def outcome_def io_try_def io_bind_def io_then_def
        io_return_def io_raise_def io_print_def subprocess_exec_def bytes_decode_def Let_def
        split: sum.splits if_splits prod.splits)
  from t have "device \<noteq> []" unfolding d by (rule first_line_of_stripped)
  then show ?thesis using strip_hd[of "hd (split_nl (strip decoded))"]
      strip_last[of "hd (split_nl (strip decoded))"] by (simp add: d)
qed

theorem device_name_stripped_witness:
  "outcome (get_scanner_device sample_world ''wia'') = Inr (Some ''Dev A'')
   \<and> ''Dev A'' \<noteq> [] \<and> \<not> isspace (hd ''Dev A'') \<and> \<not> isspace (last ''Dev A'')"
proof -
  have h: "outcome (get_scanner_device sample_world ''wia'') = Inr (Some ''Dev A'')"
    by (simp add: get_scanner_device_def sample_world_def io_try_def io_bind_def subprocess_exec_def
      version_command_def listdevices_command_def sample_listing_def bytes_decode_def io_return_def
      outcome_def strip_def lstrip_def rstrip_def isspace_def Let_def)
  show ?thesis using h device_name_stripped[OF h] by simp
qed

section \<open>Success of a completed run\<close>

text \<open>
  C1. A run is completed when the output folder could be made, the tool answered the
  version query, a device was given or found, the scan command was launched and its two
  pipes were read to their end. Such a run, unless the file search is interrupted, reports
  success exactly when the exit code of the scan process is zero or at least one file
  matching \<open><prefix>*.<format>\<close> is in the output folder once the process has terminated:
  a non-zero exit code with a matching file is a success, a zero exit code without any
  file is a success, and only a non-zero exit code without any file is a failure.
\<close>

theorem completed_run_success_iff:
  assumes mkdir: "mkdir_error w output_folder = None"
    and available: "outcome (is_naps2_available w) = Inr True"
    and device:
      "device_name = Some device
       \<or> (device_name = None \<and> outcome (get_scanner_device w driver) = Inr (Some device))"
    and launch:
      "create_subprocess_exec w
         (naps2_arguments w driver device source dpi color_mode
            (build_output_path output_folder file_prefix file_format)) = Inr process"
    and drained: "outcome (gather_read_output w (transcript process)) = Inr ()"
    and not_interrupted:
      "\<And>e. Path_glob (files_after w) output_folder (file_prefix @ ''*.'' @ file_format) = Inl e
            \<Longrightarrow> is_Exception (exn_class e)"
  shows
    "outcome (scan_with_naps2 w output_folder file_prefix file_format dpi color_mode source
                device_name driver)
     = Inr (returncode process = 0
            \<or> (\<exists>files. Path_glob (files_after w) output_folder
                          (file_prefix @ ''*.'' @ file_format) = Inr files
                        \<and> files \<noteq> []))"
proof -
  let ?glob = "Path_glob (files_after w) output_folder (file_prefix @ ''*.'' @ file_format)"
  let ?matching = "\<exists>files. ?glob = Inr files \<and> files \<noteq> []"
  have run:
    "outcome (run_scan w output_folder file_prefix file_format dpi color_mode source device driver)
     = Inr (returncode process = 0 \<or> ?matching)"
  proof (cases ?glob)
    case (Inl e)
    then have "is_Exception (exn_class e)" by (rule not_interrupted)
    with Inl launch drained show ?thesis
      by (simp add: outcome_run_scan outcome_check_for_scanned_files outcome_show_scan_results)
  next
    case (Inr files)
    with launch drained show ?thesis
      by (auto simp: outcome_run_scan outcome_check_for_scanned_files outcome_show_scan_results)
  qed
  have "outcome (scan_body w output_folder file_prefix file_format dpi color_mode source
                   device_name driver)
        = Inr (returncode process = 0 \<or> ?matching)"
    using device
  proof
    assume "device_name = Some device"
    with mkdir available run show ?thesis by (simp add: outcome_scan_body)
  next
    assume "device_name = None \<and> outcome (get_scanner_device w driver) = Inr (Some device)"
    with mkdir available run show ?thesis by (simp add: outcome_scan_body)
  qed
  then show ?thesis by (simp add: outcome_scan_with_naps2)
qed

theorem completed_run_success_iff_witness:
  "outcome (scan_with_naps2 sample_world ''scanned_pages'' ''page'' ''png'' 300 ''color''
              ''feeder'' None ''wia'') = Inr True
   \<and> create_subprocess_exec sample_world
        (naps2_arguments sample_world ''wia'' ''Dev A'' ''feeder'' 300 ''color''
           (build_output_path ''scanned_pages'' ''page'' ''png''))
      = Inr \<lparr>stdout_data = [],
             transcript = [(Stdout, ''Scanning page 1'' @ [CHR 0x0A]),
                           (Stderr, ''Feeder empty'' @ [CHR 0x0A]),
                           (Stderr, [])],
             returncode = 1\<rparr>"
proof -
  let ?process = "\<lparr>stdout_data = [],
             transcript = [(Stdout, ''Scanning page 1'' @ [CHR 0x0A]),
                           (Stderr, ''Feeder empty'' @ [CHR 0x0A]),
                           (Stderr, [])],
             returncode = 1\<rparr>"
  have mkdir: "mkdir_error sample_world ''scanned_pages'' = None"
    by (simp add: sample_world_def)
  have available: "outcome (is_naps2_available sample_world) = Inr True"
    by (simp add: outcome_is_naps2_available sample_world_def)
  have found: "outcome (get_scanner_device sample_world ''wia'') = Inr (Some ''Dev A'')"
    by (simp add: outcome_get_scanner_device sample_world_def version_command_def
        listdevices_command_def sample_listing_def strip_def lstrip_def rstrip_def isspace_def)
  have launch:
    "create_subprocess_exec sample_world
       (naps2_arguments sample_world ''wia'' ''Dev A'' ''feeder'' 300 ''color''
          (build_output_path ''scanned_pages'' ''page'' ''png'')) = Inr ?process"
    by (simp add: sample_world_def naps2_arguments_def version_command_def
        listdevices_command_def)
  have drained: "outcome (gather_read_output sample_world (transcript ?process)) = Inr ()"
    by (simp add: io_outcome sample_world_def readline_limit_def)
  have glob:
    "Path_glob (files_after sample_world) ''scanned_pages'' (''page'' @ ''*.'' @ ''png'')
     = Inr [\<lparr>parts = [''scanned_pages'', ''page_0002.png''], stat_size = Inr 2048000\<rparr>,
            \<lparr>parts = [''scanned_pages'', ''page_0001.png''], stat_size = Inr 1500\<rparr>]"
    by (simp add: Path_glob_def sample_world_def sample_folder_def)
  have "outcome (scan_with_naps2 sample_world ''scanned_pages'' ''page'' ''png'' 300 ''color''
                   ''feeder'' None ''wia'') = Inr True"
    using completed_run_success_iff [of sample_world "''scanned_pages''" None "''Dev A''"
        "''wia''" "''feeder''" 300 "''color''" "''page''" "''png''" ?process,
        OF mkdir available _ launch drained]
      found glob by simp
  with launch show ?thesis by simp
qed

section \<open>The availability check\<close>

text \<open>
  C4, as the specification has it: the availability check comes before any real work, and
  a tool that cannot be located is reported as such. On a machine without the tool where
  the output folder cannot be made, the scan operation stops at the folder: it launches
  nothing, the version query included, and what it prints is the failure of the folder,
  not that the tool is missing.
\<close>

theorem missing_tool_not_reported:
  "create_subprocess_exec no_tool_readonly_world [''NAPS2.Console'', ''--version'']
     = Inl (Exn FileNotFoundError ''[Errno 2] No such file or directory'')
   \<and> launched (scan_with_naps2 no_tool_readonly_world ''scanned_pages'' ''page'' ''png'' 300
                 ''color'' ''feeder'' None ''wia'') = []
   \<and> printed (scan_with_naps2 no_tool_readonly_world ''scanned_pages'' ''page'' ''png'' 300
                ''color'' ''feeder'' None ''wia'')
       = [''Error during scan: [Errno 13] Permission denied'']"
  by (simp add: launched_scan_with_naps2 launched_scan_body printed_scan_with_naps2
      printed_scan_body_no_folder outcome_scan_body no_tool_readonly_world_def no_tool_world_def
      sample_world_def)

text \<open>
  C4, amended. \<open>is_naps2_available\<close> launches the tool with the version query and nothing
  else, and answers False when the executable cannot be started (FileNotFoundError or
  another OSError) or the probe exits with a non-zero code. The scan operation makes the
  output folder first and runs the check next. With the tool unavailable: if the folder
  could be made, the operation prints that the tool was not found and returns False, having
  launched the version query only, so neither the device listing nor the scan command; if
  making the folder raised, nothing is launched, the message that the tool was not found is
  not printed, and for an error that \<open>except Exception\<close> catches the operation prints
  \<open>Error during scan:\<close> with the text of that error and returns False.
\<close>

theorem unavailable_tool_after_folder:
  assumes probe:
      "(\<exists>e. create_subprocess_exec w [''NAPS2.Console'', ''--version''] = Inl e
            \<and> is_OSError (exn_class e))
       \<or> (\<exists>process. create_subprocess_exec w [''NAPS2.Console'', ''--version''] = Inr process
                    \<and> returncode process \<noteq> 0)"
  shows
    "launched (is_naps2_available w) = [[''NAPS2.Console'', ''--version'']]
     \<and> outcome (is_naps2_available w) = Inr False
     \<and> (mkdir_error w output_folder = None \<longrightarrow>
          outcome (scan_with_naps2 w output_folder file_prefix file_format dpi color_mode source
                     device_name driver) = Inr False
        \<and> launched (scan_with_naps2 w output_folder file_prefix file_format dpi color_mode source
                       device_name driver) = [[''NAPS2.Console'', ''--version'']]
        \<and> printed (scan_with_naps2 w output_folder file_prefix file_format dpi color_mode source
                      device_name driver)
            = (if \<not> exists_after_mkdir w output_folder
               then [''Created folder: '' @ output_folder] else [])
              @ [''ERROR: NAPS2.Console not found in system PATH.'',
                 ''Install NAPS2 from: https://www.naps2.com/download'',
                 ''Or add NAPS2 installation folder to PATH environment variable.''])
     \<and> (\<forall>e. mkdir_error w output_folder = Some e \<longrightarrow>
          launched (scan_with_naps2 w output_folder file_prefix file_format dpi color_mode source
                      device_name driver) = []
        \<and> ''ERROR: NAPS2.Console not found in system PATH.''
            \<notin> set (printed (scan_with_naps2 w output_folder file_prefix file_format dpi
                               color_mode source device_name driver))
        \<and> (is_Exception (exn_class e) \<longrightarrow>
             outcome (scan_with_naps2 w output_folder file_prefix file_format dpi color_mode
                        source device_name driver) = Inr False
           \<and> printed (scan_with_naps2 w output_folder file_prefix file_format dpi color_mode
                         source device_name driver)
               = [''Error during scan: '' @ exn_text e]))"
proof -
  let ?scan = "scan_with_naps2 w output_folder file_prefix file_format dpi color_mode source
                 device_name driver"
  have unavailable: "outcome (is_naps2_available w) = Inr False"
    using probe by (auto simp: outcome_is_naps2_available version_command_def)
  have l: "launched (is_naps2_available w) = [[''NAPS2.Console'', ''--version'']]"
    by (simp add: launched_is_naps2_available version_command_def)
  have made:
    "outcome ?scan = Inr False
     \<and> launched ?scan = [[''NAPS2.Console'', ''--version'']]
     \<and> printed ?scan
         = (if \<not> exists_after_mkdir w output_folder
            then [''Created folder: '' @ output_folder] else [])
           @ [''ERROR: NAPS2.Console not found in system PATH.'',
              ''Install NAPS2 from: https://www.naps2.com/download'',
              ''Or add NAPS2 installation folder to PATH environment variable.'']"
    if mkdir: "mkdir_error w output_folder = None"
  proof -
    have "outcome ?scan = Inr False"
      using unavailable mkdir by (simp add: outcome_scan_with_naps2 outcome_scan_body)
    moreover have "launched ?scan = [[''NAPS2.Console'', ''--version'']]"
      using unavailable mkdir
      by (simp add: launched_scan_with_naps2 launched_scan_body version_command_def)
    moreover have "printed ?scan
         = (if \<not> exists_after_mkdir w output_folder
            then [''Created folder: '' @ output_folder] else [])
           @ [''ERROR: NAPS2.Console not found in system PATH.'',
              ''Install NAPS2 from: https://www.naps2.com/download'',
              ''Or add NAPS2 installation folder to PATH environment variable.'']"
      using unavailable mkdir
      by (simp add: printed_scan_with_naps2 printed_scan_body_unavailable outcome_scan_body)
    ultimately show ?thesis by blast
  qed
  have not_made:
    "launched ?scan = []
     \<and> ''ERROR: NAPS2.Console not found in system PATH.'' \<notin> set (printed ?scan)
     \<and> (is_Exception (exn_class e) \<longrightarrow>
          outcome ?scan = Inr False \<and> printed ?scan = [''Error during scan: '' @ exn_text e])"
    if mkdir: "mkdir_error w output_folder = Some e" for e
  proof -
    have "launched ?scan = []"
      using mkdir by (simp add: launched_scan_with_naps2 launched_scan_body)
    moreover have "''ERROR: NAPS2.Console not found in system PATH.'' \<notin> set (printed ?scan)"
      using mkdir
      by (simp add: printed_scan_with_naps2 printed_scan_body_no_folder outcome_scan_body)
    moreover have "outcome ?scan = Inr False \<and> printed ?scan = [''Error during scan: '' @ exn_text e]"
      if "is_Exception (exn_class e)"
      using mkdir that
      by (simp add: outcome_scan_with_naps2 printed_scan_with_naps2
          printed_scan_body_no_folder outcome_scan_body)
    ultimately show ?thesis by blast
  qed
  from l unavailable made not_made show ?thesis by blast
qed

theorem unavailable_tool_after_folder_witness:
  "create_subprocess_exec no_tool_world [''NAPS2.Console'', ''--version'']
     = Inl (Exn FileNotFoundError ''[Errno 2] No such file or directory'')
   \<and> outcome (scan_with_naps2 no_tool_world ''scanned_pages'' ''page'' ''png'' 300 ''color''
                ''feeder'' None ''wia'') = Inr False
   \<and> launched (scan_with_naps2 no_tool_world ''scanned_pages'' ''page'' ''png'' 300 ''color''
                 ''feeder'' None ''wia'') = [[''NAPS2.Console'', ''--version'']]
   \<and> printed (scan_with_naps2 no_tool_world ''scanned_pages'' ''page'' ''png'' 300 ''color''
                ''feeder'' None ''wia'')
       = [''ERROR: NAPS2.Console not found in system PATH.'',
          ''Install NAPS2 from: https://www.naps2.com/download'',
          ''Or add NAPS2 installation folder to PATH environment variable.'']
   \<and> outcome (scan_with_naps2 no_tool_readonly_world ''scanned_pages'' ''page'' ''png'' 300
                ''color'' ''feeder'' None ''wia'') = Inr False
   \<and> launched (scan_with_naps2 no_tool_readonly_world ''scanned_pages'' ''page'' ''png'' 300
                 ''color'' ''feeder'' None ''wia'') = []"
proof -
  have probe:
    "create_subprocess_exec no_tool_world [''NAPS2.Console'', ''--version'']
       = Inl (Exn FileNotFoundError ''[Errno 2] No such file or directory'')"
    by (simp add: no_tool_world_def sample_world_def)
  then have probe':
    "(\<exists>e. create_subprocess_exec no_tool_world [''NAPS2.Console'', ''--version''] = Inl e
            \<and> is_OSError (exn_class e))
       \<or> (\<exists>process. create_subprocess_exec no_tool_world [''NAPS2.Console'', ''--version'']
                       = Inr process \<and> returncode process \<noteq> 0)"
    by simp
  have probe_ro:
    "(\<exists>e. create_subprocess_exec no_tool_readonly_world [''NAPS2.Console'', ''--version'']
             = Inl e \<and> is_OSError (exn_class e))
       \<or> (\<exists>process. create_subprocess_exec no_tool_readonly_world
                       [''NAPS2.Console'', ''--version''] = Inr process
                    \<and> returncode process \<noteq> 0)"
    by (simp add: no_tool_readonly_world_def no_tool_world_def sample_world_def)
  have mkdir: "mkdir_error no_tool_world ''scanned_pages'' = None"
    by (simp add: no_tool_world_def sample_world_def)
  have there: "exists_after_mkdir no_tool_world ''scanned_pages''"
    by (simp add: no_tool_world_def sample_world_def)
  have mkdir_ro:
    "mkdir_error no_tool_readonly_world ''scanned_pages''
       = Some (Exn PermissionError ''[Errno 13] Permission denied'')"
    by (simp add: no_tool_readonly_world_def)
  have a:
    "outcome (scan_with_naps2 no_tool_world ''scanned_pages'' ''page'' ''png'' 300 ''color''
                ''feeder'' None ''wia'') = Inr False
   \<and> launched (scan_with_naps2 no_tool_world ''scanned_pages'' ''page'' ''png'' 300 ''color''
                 ''feeder'' None ''wia'') = [[''NAPS2.Console'', ''--version'']]
   \<and> printed (scan_with_naps2 no_tool_world ''scanned_pages'' ''page'' ''png'' 300 ''color''
                ''feeder'' None ''wia'')
       = [''ERROR: NAPS2.Console not found in system PATH.'',
          ''Install NAPS2 from: https://www.naps2.com/download'',
          ''Or add NAPS2 installation folder to PATH environment variable.'']"
    using unavailable_tool_after_folder [OF probe', of "''scanned_pages''" "''page''" "''png''"
        300 "''color''" "''feeder''" None "''wia''"] mkdir there
    by simp
  have b:
    "outcome (scan_with_naps2 no_tool_readonly_world ''scanned_pages'' ''page'' ''png'' 300
                ''color'' ''feeder'' None ''wia'') = Inr False
   \<and> launched (scan_with_naps2 no_tool_readonly_world ''scanned_pages'' ''page'' ''png'' 300
                 ''color'' ''feeder'' None ''wia'') = []"
    using unavailable_tool_after_folder [OF probe_ro, of "''scanned_pages''" "''page''" "''png''"
        300 "''color''" "''feeder''" None "''wia''"] mkdir_ro
    by simp
  from probe a b show ?thesis by blast
qed

section \<open>Device resolution\<close>

text \<open>
  C3. \<open>get_scanner_device\<close> launches the listing subcommand of the selected driver and
  nothing else. When the listing exits with code zero and its non-empty output decodes,
  the result is the first non-empty line of that output as the device name, or no device
  when every line is empty; a listing that exits with another code, prints nothing or
  cannot be started gives no device. When no device was given and resolution gives none,
  the scan operation (the folder made, the tool available) prints that no scanner was
  found and returns False, having launched the version query and the listing but no scan
  command.
\<close>

theorem device_resolution:
  "launched (get_scanner_device w driver)
     = [[''NAPS2.Console'', ''--driver'', driver, ''--listdevices'']]
   \<and> (\<forall>process decoded.
        create_subprocess_exec w [''NAPS2.Console'', ''--driver'', driver, ''--listdevices'']
          = Inr process
        \<and> returncode process = 0 \<and> stdout_data process \<noteq> []
        \<and> decode w (stdout_data process) = Inr decoded
        \<longrightarrow> outcome (get_scanner_device w driver) = Inr (spec_first_nonempty_line decoded))
   \<and> (\<forall>process.
        create_subprocess_exec w [''NAPS2.Console'', ''--driver'', driver, ''--listdevices'']
          = Inr process
        \<and> (returncode process \<noteq> 0 \<or> stdout_data process = [])
        \<longrightarrow> outcome (get_scanner_device w driver) = Inr None)
   \<and> (\<forall>e.
        create_subprocess_exec w [''NAPS2.Console'', ''--driver'', driver, ''--listdevices'']
          = Inl e
        \<and> is_Exception (exn_class e)
        \<longrightarrow> outcome (get_scanner_device w driver) = Inr None)
   \<and> (mkdir_error w output_folder = None
        \<and> outcome (is_naps2_available w) = Inr True
        \<and> outcome (get_scanner_device w driver) = Inr None
        \<longrightarrow> outcome (scan_with_naps2 w output_folder file_prefix file_format dpi color_mode source
                       None driver) = Inr False
          \<and> launched (scan_with_naps2 w output_folder file_prefix file_format dpi color_mode
                         source None driver)
              = [[''NAPS2.Console'', ''--version''],
                 [''NAPS2.Console'', ''--driver'', driver, ''--listdevices'']]
          \<and> ''ERROR: No scanner found.''
              \<in> set (printed (scan_with_naps2 w output_folder file_prefix file_format dpi
                                 color_mode source None driver)))"
proof -
  have a: "launched (get_scanner_device w driver)
             = [[''NAPS2.Console'', ''--driver'', driver, ''--listdevices'']]"
    by (simp add: launched_get_scanner_device listdevices_command_def)
  have b: "outcome (get_scanner_device w driver) = Inr (spec_first_nonempty_line decoded)"
    if "create_subprocess_exec w [''NAPS2.Console'', ''--driver'', driver, ''--listdevices'']
          = Inr process"
      and "returncode process = 0" and "stdout_data process \<noteq> []"
      and "decode w (stdout_data process) = Inr decoded"
    for process decoded
  proof (cases "strip decoded = []")
    case True
    with that show ?thesis
      by (simp add: outcome_get_scanner_device listdevices_command_def no_line_is_spec)
  next
    case False
    with that show ?thesis
      by (simp add: outcome_get_scanner_device listdevices_command_def first_line_is_spec)
  qed
  have c: "outcome (get_scanner_device w driver) = Inr None"
    if "create_subprocess_exec w [''NAPS2.Console'', ''--driver'', driver, ''--listdevices'']
          = Inr process"
      and "returncode process \<noteq> 0 \<or> stdout_data process = []"
    for process
    using that by (auto simp: outcome_get_scanner_device listdevices_command_def)
  have d: "outcome (get_scanner_device w driver) = Inr None"
    if "create_subprocess_exec w [''NAPS2.Console'', ''--driver'', driver, ''--listdevices'']
          = Inl e"
      and "is_Exception (exn_class e)"
    for e
    using that by (simp add: outcome_get_scanner_device listdevices_command_def)
  have e: "outcome (scan_with_naps2 w output_folder file_prefix file_format dpi color_mode source
                       None driver) = Inr False
          \<and> launched (scan_with_naps2 w output_folder file_prefix file_format dpi color_mode
                         source None driver)
              = [[''NAPS2.Console'', ''--version''],
                 [''NAPS2.Console'', ''--driver'', driver, ''--listdevices'']]
          \<and> ''ERROR: No scanner found.''
              \<in> set (printed (scan_with_naps2 w output_folder file_prefix file_format dpi
                                 color_mode source None driver))"
    if mkdir: "mkdir_error w output_folder = None"
      and available: "outcome (is_naps2_available w) = Inr True"
      and none: "outcome (get_scanner_device w driver) = Inr None"
  proof -
    have "outcome (scan_with_naps2 w output_folder file_prefix file_format dpi color_mode source
                       None driver) = Inr False"
      using that by (simp add: outcome_scan_with_naps2 outcome_scan_body)
    moreover have "launched (scan_with_naps2 w output_folder file_prefix file_format dpi
                      color_mode source None driver)
              = [[''NAPS2.Console'', ''--version''],
                 [''NAPS2.Console'', ''--driver'', driver, ''--listdevices'']]"
      using that
      by (simp add: launched_scan_with_naps2 launched_scan_body version_command_def
          listdevices_command_def)
    moreover have "''ERROR: No scanner found.''
              \<in> set (printed (scan_with_naps2 w output_folder file_prefix file_format dpi
                                 color_mode source None driver))"
      using that
      by (simp add: scan_with_naps2_def scan_body_def io_printed io_outcome)
    ultimately show ?thesis by blast
  qed
  from a b c d e show ?thesis by blast
qed

theorem device_resolution_witness:
  "outcome (get_scanner_device sample_world ''wia'') = Inr (Some ''Dev A'')
   \<and> spec_first_nonempty_line sample_listing = Some ''Dev A''
   \<and> outcome (scan_with_naps2 no_scanner_world ''scanned_pages'' ''page'' ''png'' 300 ''color''
                 ''feeder'' None ''wia'') = Inr False
   \<and> launched (scan_with_naps2 no_scanner_world ''scanned_pages'' ''page'' ''png'' 300 ''color''
                  ''feeder'' None ''wia'')
       = [[''NAPS2.Console'', ''--version''],
          [''NAPS2.Console'', ''--driver'', ''wia'', ''--listdevices'']]"
proof -
  let ?listing = "\<lparr>stdout_data = sample_listing, transcript = [], returncode = 0\<rparr>"
  have launch:
    "create_subprocess_exec sample_world [''NAPS2.Console'', ''--driver'', ''wia'', ''--listdevices'']
       = Inr ?listing"
    by (simp add: sample_world_def version_command_def listdevices_command_def)
  have nonempty: "stdout_data ?listing \<noteq> []" by (simp add: sample_listing_def)
  have decoded: "decode sample_world (stdout_data ?listing) = Inr sample_listing"
    by (simp add: sample_world_def)
  have spec: "spec_first_nonempty_line sample_listing = Some ''Dev A''"
    by (simp add: spec_first_nonempty_line_def sample_listing_def strip_def lstrip_def
        rstrip_def isspace_def)
  have mkdir: "mkdir_error no_scanner_world ''scanned_pages'' = None"
    by (simp add: no_scanner_world_def sample_world_def)
  have available: "outcome (is_naps2_available no_scanner_world) = Inr True"
    by (simp add: outcome_is_naps2_available no_scanner_world_def sample_world_def)
  have silent:
    "create_subprocess_exec no_scanner_world
       [''NAPS2.Console'', ''--driver'', ''wia'', ''--listdevices'']
       = Inr \<lparr>stdout_data = [], transcript = [], returncode = 0\<rparr>"
    by (simp add: no_scanner_world_def sample_world_def version_command_def)
  have found: "outcome (get_scanner_device sample_world ''wia'') = Inr (Some ''Dev A'')"
    using device_resolution [of sample_world "''wia''"] launch nonempty decoded spec
    by (metis child.select_convs(3))
  have none: "outcome (get_scanner_device no_scanner_world ''wia'') = Inr None"
    using device_resolution [of no_scanner_world "''wia''"] silent
    by (metis child.select_convs(1))
  have "outcome (scan_with_naps2 no_scanner_world ''scanned_pages'' ''page'' ''png'' 300 ''color''
                 ''feeder'' None ''wia'') = Inr False
   \<and> launched (scan_with_naps2 no_scanner_world ''scanned_pages'' ''page'' ''png'' 300 ''color''
                  ''feeder'' None ''wia'')
       = [[''NAPS2.Console'', ''--version''],
          [''NAPS2.Console'', ''--driver'', ''wia'', ''--listdevices'']]"
    using device_resolution [of no_scanner_world "''wia''" "''scanned_pages''" "''page''"
        "''png''" 300 "''color''" "''feeder''"] mkdir available none
    by blast
  with found spec show ?thesis by blast
qed

end
